theory Spec2Isabelle
  imports Complex_Main "HOL-Library.AList"
begin

section \<open>Recipe-based sales page: data model\<close>

text \<open>
  The development embeds the cart and stock logic of the recipe-based sales page
  (\<^verbatim>\<open>src/components/pages/SalesPage.tsx\<close>, the component whose cart lines are finished
  products).  A JavaScript \<^verbatim>\<open>number\<close> is modelled as an exact rational: every quantity,
  cost and price is a finite value read from the database, and the one place where the
  source produces a non-finite number (the initial \<^verbatim>\<open>Infinity\<close> of the running minimum) is
  modelled by a constructor of its own.  Identifiers are strings.

  Record fields keep the names of the TypeScript interfaces; where two interfaces share
  a field name (\<^verbatim>\<open>id\<close>, \<^verbatim>\<open>name\<close>, \<^verbatim>\<open>qty\<close>) the field carries a prefix for its interface.
  The unit type is the union \<^verbatim>\<open>'weight' | 'quantity'\<close> of the \<^verbatim>\<open>InventoryItem\<close> interface;
  the code only ever asks whether it is \<^verbatim>\<open>'weight'\<close>.
\<close>

datatype unit_type = Weight | Quantity

record FinishedProduct =
  fp_id :: string
  fp_name :: string
  image_url :: "string option"
  selling_price :: rat
  created_at :: string
  updated_at :: string

record ProductIngredient =
  pi_id :: string
  product_id :: string
  item_id :: string
  pi_qty :: rat

record InventoryItem =
  inv_id :: string
  inv_name :: string
  inv_qty :: rat
  cost :: rat
  unit_type :: unit_type

record CartItem =
  product :: FinishedProduct
  quantity :: rat
  ingredients :: "ProductIngredient list"

datatype dine_in_takeout = dine_in | takeout

text \<open>
  The component state read or written by the cart logic.  \<open>modalQuantity\<close> is the
  \<^verbatim>\<open>quantity\<close> state variable of the product selection modal (the name \<open>quantity\<close> is
  the cart line's field).  An unset payment method or customer type is the empty string,
  as in the source.
\<close>

record state =
  inventoryItems :: "InventoryItem list"
  productIngredients :: "string \<rightharpoonup> ProductIngredient list"
  dineInEnabled :: bool
  cart :: "CartItem list"
  selectedPaymentMethod :: string
  selectedCustomerType :: string
  selectedDineInTakeout :: "dine_in_takeout option"
  isCheckingOut :: bool
  selectedProduct :: "FinishedProduct option"
  modalQuantity :: rat

section \<open>Availability calculator\<close>

text \<open>\<^verbatim>\<open>productIngredients[productId] || []\<close>\<close>

definition ingredientsOf :: "state \<Rightarrow> string \<Rightarrow> ProductIngredient list" where
  "ingredientsOf s productId =
     (case productIngredients s productId of None \<Rightarrow> [] | Some ings \<Rightarrow> ings)"

text \<open>\<^verbatim>\<open>inventoryItems.find(i => i.id === itemId)\<close>\<close>

definition findItem :: "state \<Rightarrow> string \<Rightarrow> InventoryItem option" where
  "findItem s itemId = find (\<lambda>i. inv_id i = itemId) (inventoryItems s)"

definition getInventoryInIngredientUnit :: "InventoryItem \<Rightarrow> rat" where
  "getInventoryInIngredientUnit item =
     (if unit_type item = Weight then inv_qty item * 1000 else inv_qty item)"

text \<open>
  The reducer passed to \<^verbatim>\<open>reduce\<close> in both \<^verbatim>\<open>canSellProduct\<close> and \<^verbatim>\<open>getMaxQuantity\<close>:
  the first recipe line of the cart line's product that names the ingredient, times the
  cart line's quantity.
\<close>

definition reserveStep :: "state \<Rightarrow> string \<Rightarrow> rat \<Rightarrow> CartItem \<Rightarrow> rat" where
  "reserveStep s itemId tot cartItem =
     (let cartIngredients = ingredientsOf s (fp_id (product cartItem));
          matchingIng = find (\<lambda>ci. item_id ci = itemId) cartIngredients
      in tot + (case matchingIng of
                    Some m \<Rightarrow> pi_qty m * quantity cartItem
                  | None \<Rightarrow> 0))"

text \<open>\<^verbatim>\<open>cartQty\<close> of \<^verbatim>\<open>canSellProduct\<close>\<close>

definition cartQty :: "state \<Rightarrow> string \<Rightarrow> string \<Rightarrow> rat" where
  "cartQty s productId itemId =
     foldl (reserveStep s itemId) 0
       (filter (\<lambda>c. fp_id (product c) \<noteq> productId) (cart s))"

text \<open>\<^verbatim>\<open>cartReserved\<close> of \<^verbatim>\<open>getMaxQuantity\<close>\<close>

definition cartReserved :: "state \<Rightarrow> string \<Rightarrow> string \<Rightarrow> rat" where
  "cartReserved s productId itemId =
     foldl (reserveStep s itemId) 0
       (filter (\<lambda>c. fp_id (product c) \<noteq> productId) (cart s))"

text \<open>
  The \<^verbatim>\<open>for\<close> loop of \<^verbatim>\<open>canSellProduct\<close>; each \<^verbatim>\<open>return false\<close> ends it.  The
  source's default \<^verbatim>\<open>qty = 1\<close> is for callers that omit the argument; the model always
  takes it.
\<close>

fun canSellLoop :: "state \<Rightarrow> string \<Rightarrow> rat \<Rightarrow> ProductIngredient list \<Rightarrow> bool" where
  "canSellLoop s productId qty [] = True"
| "canSellLoop s productId qty (ing # rest) =
     (case findItem s (item_id ing) of
        None \<Rightarrow> False
      | Some item \<Rightarrow>
          (let inventoryStock = getInventoryInIngredientUnit item;
               requiredQty = (pi_qty ing * qty) + cartQty s productId (item_id ing)
           in if inventoryStock < requiredQty then False
              else canSellLoop s productId qty rest))"

definition canSellProduct :: "state \<Rightarrow> string \<Rightarrow> rat \<Rightarrow> bool" where
  "canSellProduct s productId qty =
     (let ingredients = ingredientsOf s productId
      in if length ingredients = 0 then False
         else canSellLoop s productId qty ingredients)"

text \<open>
  The running minimum \<^verbatim>\<open>maxQty\<close> starts at \<^verbatim>\<open>Infinity\<close>; \<open>Math_min\<close> is
  \<^verbatim>\<open>Math.min(maxQty, possibleQty)\<close> and \<open>Math_floor\<close> is \<^verbatim>\<open>Math.floor\<close>.
\<close>

datatype maxQty = Infinity | Fin rat

fun Math_min :: "maxQty \<Rightarrow> rat \<Rightarrow> maxQty" where
  "Math_min Infinity x = Fin x"
| "Math_min (Fin m) x = Fin (min m x)"

definition Math_floor :: "rat \<Rightarrow> rat" where
  "Math_floor x = of_int \<lfloor>x\<rfloor>"

text \<open>
  The \<^verbatim>\<open>for\<close> loop of \<^verbatim>\<open>getMaxQuantity\<close>; \<^verbatim>\<open>maxQty = 0; break\<close> leaves it with 0
  whatever the running minimum was.
\<close>

fun maxQtyLoop :: "state \<Rightarrow> string \<Rightarrow> ProductIngredient list \<Rightarrow> maxQty \<Rightarrow> maxQty" where
  "maxQtyLoop s productId [] maxQty = maxQty"
| "maxQtyLoop s productId (ing # rest) maxQty =
     (case findItem s (item_id ing) of
        None \<Rightarrow> Fin 0
      | Some item \<Rightarrow>
          if pi_qty ing = 0 then Fin 0
          else
            (let inventoryStock = getInventoryInIngredientUnit item;
                 availableStock = inventoryStock - cartReserved s productId (item_id ing);
                 possibleQty = Math_floor (availableStock / pi_qty ing)
             in maxQtyLoop s productId rest (Math_min maxQty possibleQty)))"

definition getMaxQuantity :: "state \<Rightarrow> string \<Rightarrow> rat" where
  "getMaxQuantity s productId =
     (let ingredients = ingredientsOf s productId
      in if length ingredients = 0 then 0
         else (case maxQtyLoop s productId ingredients Infinity of
                 Infinity \<Rightarrow> 0
               | Fin m \<Rightarrow> m))"

text \<open>
  \<^verbatim>\<open>calculateProductCost\<close>: a recipe line whose ingredient is not in the inventory
  snapshot adds 0.
\<close>

definition calculateProductCost :: "state \<Rightarrow> string \<Rightarrow> rat" where
  "calculateProductCost s productId =
     (let ingredients = ingredientsOf s productId
      in foldl (\<lambda>tot ing.
                  (let item = findItem s (item_id ing)
                   in tot + (case item of
                               Some i \<Rightarrow> cost i * pi_qty ing
                             | None \<Rightarrow> 0)))
           0 ingredients)"

section \<open>Cart operations\<close>

text \<open>
  A handler returns the toast it shows, if any, and the state after its \<^verbatim>\<open>set...\<close>
  calls.  A handler reads the state of the render it was created in, which is its
  argument.
\<close>

datatype toast = Error string | Success string | SaleCompleted rat

definition closeProductModal :: "state \<Rightarrow> state" where
  "closeProductModal s = s\<lparr>selectedProduct := None, modalQuantity := 1\<rparr>"

text \<open>\<^verbatim>\<open>Array.prototype.findIndex\<close>: the first index whose element satisfies the test, or -1.\<close>

fun findIndex :: "('a \<Rightarrow> bool) \<Rightarrow> 'a list \<Rightarrow> int" where
  "findIndex P [] = - 1"
| "findIndex P (x # xs) =
     (if P x then 0
      else (let i = findIndex P xs in if i < 0 then - 1 else i + 1))"

definition addToCart :: "state \<Rightarrow> toast option \<times> state" where
  "addToCart s =
     (case selectedProduct s of
        None \<Rightarrow> (None, s)
      | Some sp \<Rightarrow>
          if modalQuantity s \<le> 0 then (Some (Error ''Please enter a valid quantity''), s)
          else
            (let maxQty = getMaxQuantity s (fp_id sp)
             in if modalQuantity s > maxQty
                then (Some (Error ''Not enough ingredients in stock''), s)
                else
                  (let ingredients = ingredientsOf s (fp_id sp)
                   in if length ingredients = 0
                      then (Some (Error ''This product has no ingredients configured''), s)
                      else
                        (let existingIndex =
                               findIndex (\<lambda>item. fp_id (product item) = fp_id sp) (cart s)
                         in if existingIndex \<ge> 0
                            then
                              (let updatedCart =
                                     (cart s)[nat existingIndex :=
                                        (cart s ! nat existingIndex)
                                          \<lparr>quantity := modalQuantity s\<rparr>]
                               in (Some (Success ''Cart updated''),
                                   closeProductModal (s\<lparr>cart := updatedCart\<rparr>)))
                            else
                              (Some (Success ''Added to cart''),
                               closeProductModal
                                 (s\<lparr>cart := cart s @
                                    [\<lparr>product = sp, quantity = modalQuantity s,
                                      ingredients = ingredients\<rparr>]\<rparr>))))))"

definition removeFromCart :: "state \<Rightarrow> string \<Rightarrow> toast option \<times> state" where
  "removeFromCart s productId =
     (Some (Success ''Removed from cart''),
      s\<lparr>cart := filter (\<lambda>item. fp_id (product item) \<noteq> productId) (cart s)\<rparr>)"

definition updateCartQuantity :: "state \<Rightarrow> string \<Rightarrow> rat \<Rightarrow> toast option \<times> state" where
  "updateCartQuantity s productId newQuantity =
     (if newQuantity \<le> 0 then removeFromCart s productId
      else
        (let maxQty = getMaxQuantity s productId
         in if newQuantity > maxQty
            then (Some (Error ''Not enough ingredients in stock''), s)
            else
              (None,
               s\<lparr>cart := map (\<lambda>item. if fp_id (product item) = productId
                                      then item\<lparr>quantity := newQuantity\<rparr>
                                      else item)
                             (cart s)\<rparr>)))"

definition clearCart :: "state \<Rightarrow> state" where
  "clearCart s =
     s\<lparr>cart := [], selectedPaymentMethod := [], selectedCustomerType := [],
       selectedDineInTakeout := None\<rparr>"

section \<open>Checkout\<close>

text \<open>
  The remote database is a pair of tables: \<^verbatim>\<open>sales\<close>, to which checkout appends, and
  \<^verbatim>\<open>products\<close>, the inventory rows.  What the page cannot decide is a parameter of the
  checkout: the transaction identifier drawn by \<^verbatim>\<open>crypto.randomUUID()\<close>, whether the
  insert of the sale records is rejected, and for which inventory row the update is
  rejected.
\<close>

record SaleRecord =
  transaction_id :: string
  sr_product_id :: string
  product_name :: string
  sr_qty :: rat
  sr_unit_type :: unit_type
  sr_cost :: rat
  sr_selling_price :: rat
  sr_total :: rat
  payment_method :: string
  customer_type :: string
  sr_dine_in_takeout :: "dine_in_takeout option"

record database =
  sales_table :: "SaleRecord list"
  products_table :: "InventoryItem list"

record env =
  transactionId :: string
  insertFails :: bool
  updateFails :: "string \<Rightarrow> bool"

record checkout_result =
  ck_toast :: toast
  ck_state :: state
  ck_db :: database
  ck_recentSale :: "SaleRecord option"

text \<open>
  The checks before \<^verbatim>\<open>setIsCheckingOut(true)\<close>: the message of the first one that fails.
\<close>

definition validateCheckout :: "state \<Rightarrow> string option" where
  "validateCheckout s =
     (if length (cart s) = 0 then Some ''Cart is empty''
      else if selectedPaymentMethod s = [] then Some ''Please select a payment method''
      else if selectedCustomerType s = [] then Some ''Please select a customer type''
      else if dineInEnabled s \<and> selectedDineInTakeout s = None
           then Some ''Please select Dine In or Takeout''
      else (case find (\<lambda>item. \<not> canSellProduct s (fp_id (product item)) (quantity item))
                   (cart s) of
              Some item \<Rightarrow> Some (''Not enough ingredients for '' @ fp_name (product item))
            | None \<Rightarrow> None))"

text \<open>
  \<^verbatim>\<open>ingredientDeductions\<close> is an object keyed by ingredient id; its entries keep the order
  in which the keys were first written, so it is an association list updated in place.
\<close>

definition deductStep :: "rat \<Rightarrow> (string \<times> rat) list \<Rightarrow> ProductIngredient \<Rightarrow> (string \<times> rat) list" where
  "deductStep itemQuantity ded ing =
     (let deduction = pi_qty ing * itemQuantity
      in AList.update (item_id ing)
           ((case map_of ded (item_id ing) of None \<Rightarrow> 0 | Some v \<Rightarrow> v) + deduction) ded)"

definition ingredientDeductions :: "state \<Rightarrow> (string \<times> rat) list" where
  "ingredientDeductions s =
     foldl (\<lambda>ded item. foldl (deductStep (quantity item)) ded
                          (ingredientsOf s (fp_id (product item))))
       [] (cart s)"

definition saleRecords :: "env \<Rightarrow> state \<Rightarrow> SaleRecord list" where
  "saleRecords e s =
     map (\<lambda>item.
            (let cost = calculateProductCost s (fp_id (product item))
             in \<lparr>transaction_id = transactionId e,
                 sr_product_id = fp_id (product item),
                 product_name = fp_name (product item),
                 sr_qty = quantity item,
                 sr_unit_type = Quantity,
                 sr_cost = cost,
                 sr_selling_price = selling_price (product item),
                 sr_total = quantity item * selling_price (product item),
                 payment_method = selectedPaymentMethod s,
                 customer_type = selectedCustomerType s,
                 sr_dine_in_takeout =
                   (if dineInEnabled s then selectedDineInTakeout s else None)\<rparr>))
       (cart s)"

definition deductionInStorageUnit :: "InventoryItem \<Rightarrow> rat \<Rightarrow> rat" where
  "deductionInStorageUnit item deduction =
     (if unit_type item = Weight then deduction / 1000 else deduction)"

text \<open>
  \<^verbatim>\<open>inventoryUpdates\<close>: one update (row id, new quantity) per entry whose ingredient is in
  the inventory snapshot; the new quantity is computed from the snapshot's quantity.
\<close>

definition inventoryUpdates :: "state \<Rightarrow> (string \<times> rat) list \<Rightarrow> (string \<times> rat) list" where
  "inventoryUpdates s ded =
     List.map_filter
       (\<lambda>(itemId, deduction).
          (case findItem s itemId of
             None \<Rightarrow> None
           | Some item \<Rightarrow>
               (let deductionInStorageUnit = deductionInStorageUnit item deduction
                in Some (itemId, inv_qty item - deductionInStorageUnit))))
       ded"

text \<open>
  \<^verbatim>\<open>.update({ qty }).eq('id', itemId)\<close>: every row with that id gets the new quantity,
  unless the service rejects the update, which leaves the table as it was.
\<close>

definition applyUpdate :: "env \<Rightarrow> InventoryItem list \<Rightarrow> string \<times> rat \<Rightarrow> InventoryItem list" where
  "applyUpdate e rows u =
     (case u of (itemId, newQty) \<Rightarrow>
        if updateFails e itemId then rows
        else map (\<lambda>row. if inv_id row = itemId then row\<lparr>inv_qty := newQty\<rparr> else row) rows)"

definition inventoryErrors :: "env \<Rightarrow> (string \<times> rat) list \<Rightarrow> (string \<times> rat) list" where
  "inventoryErrors e updates = filter (\<lambda>u. updateFails e (fst u)) updates"

text \<open>
  \<^verbatim>\<open>handleCheckout\<close>.  A failed validation returns before any state change.  Past the
  validation, the \<^verbatim>\<open>catch\<close> block turns a rejected insert and a rejected update into the
  same toast, and the \<^verbatim>\<open>finally\<close> block resets \<^verbatim>\<open>isCheckingOut\<close>.  All updates of
  \<^verbatim>\<open>inventoryUpdates\<close> are issued before their results are inspected.  The refresh by
  \<^verbatim>\<open>fetchData()\<close> that follows a completed sale is not awaited and is not part of the
  handler's result.
\<close>

definition handleCheckout :: "env \<Rightarrow> state \<Rightarrow> database \<Rightarrow> checkout_result" where
  "handleCheckout e s db =
     (case validateCheckout s of
        Some msg \<Rightarrow>
          \<lparr>ck_toast = Error msg, ck_state = s, ck_db = db, ck_recentSale = None\<rparr>
      | None \<Rightarrow>
          (let ded = ingredientDeductions s;
               recs = saleRecords e s
           in if insertFails e
              then \<lparr>ck_toast = Error ''Failed to process sale'',
                    ck_state = s\<lparr>isCheckingOut := False\<rparr>,
                    ck_db = db, ck_recentSale = None\<rparr>
              else
                (let db1 = db\<lparr>sales_table := sales_table db @ recs\<rparr>;
                     updates = inventoryUpdates s ded;
                     db2 = db1\<lparr>products_table :=
                                 foldl (applyUpdate e) (products_table db1) updates\<rparr>
                 in if length (inventoryErrors e updates) > 0
                    then \<lparr>ck_toast = Error ''Failed to process sale'',
                          ck_state = s\<lparr>isCheckingOut := False\<rparr>,
                          ck_db = db2, ck_recentSale = None\<rparr>
                    else
                      (let totalAmount =
                             foldl (\<lambda>sum item.
                                      sum + (quantity item * selling_price (product item)))
                               0 (cart s)
                       in \<lparr>ck_toast = SaleCompleted totalAmount,
                           ck_state = (clearCart s)\<lparr>isCheckingOut := False\<rparr>,
                           ck_db = db2,
                           ck_recentSale =
                             (case recs of [] \<Rightarrow> None | r # _ \<Rightarrow> Some r)\<rparr>))))"

section \<open>Specification-level definitions\<close>

text \<open>
  The quantities of the written specification, stated directly over the data model so that
  the loops and folds of the code can be compared with them.

  The reservation of one cart line for an ingredient: the recipe quantity of the line's
  product for that ingredient times the line's quantity, and nothing when the product's
  recipe does not name the ingredient.
\<close>

definition spec_reservation :: "state \<Rightarrow> string \<Rightarrow> CartItem \<Rightarrow> rat" where
  "spec_reservation s itemId c =
     (case find (\<lambda>l. item_id l = itemId) (ingredientsOf s (fp_id (product c))) of
        None \<Rightarrow> 0
      | Some l \<Rightarrow> pi_qty l * quantity c)"

text \<open>What the cart lines of the other products reserve of an ingredient.\<close>

definition spec_reservedByOthers :: "state \<Rightarrow> string \<Rightarrow> string \<Rightarrow> rat" where
  "spec_reservedByOthers s productId itemId =
     (\<Sum>c \<leftarrow> filter (\<lambda>c. fp_id (product c) \<noteq> productId) (cart s).
        spec_reservation s itemId c)"

text \<open>A recipe line fails when its ingredient is missing or its quantity per unit is 0.\<close>

definition spec_lineFails :: "state \<Rightarrow> ProductIngredient \<Rightarrow> bool" where
  "spec_lineFails s l = (findItem s (item_id l) = None \<or> pi_qty l = 0)"

text \<open>
  The units one recipe line allows: the floor of the stock in the recipe's unit, less the
  reservations of the other cart lines, divided by the quantity per unit.
\<close>

definition spec_possibleUnits :: "state \<Rightarrow> string \<Rightarrow> ProductIngredient \<Rightarrow> rat" where
  "spec_possibleUnits s productId l =
     (case findItem s (item_id l) of
        None \<Rightarrow> 0
      | Some item \<Rightarrow>
          of_int \<lfloor>((case unit_type item of Weight \<Rightarrow> inv_qty item * 1000
                                          | Quantity \<Rightarrow> inv_qty item)
                    - spec_reservedByOthers s productId (item_id l)) / pi_qty l\<rfloor>)"

text \<open>
  The stock of a recipe line's ingredient, in the recipe's unit, covers what the other
  cart lines reserve of it.
\<close>

definition stockCoversReservations :: "state \<Rightarrow> string \<Rightarrow> ProductIngredient \<Rightarrow> bool" where
  "stockCoversReservations s productId l =
     (case findItem s (item_id l) of
        None \<Rightarrow> True
      | Some item \<Rightarrow>
          cartReserved s productId (item_id l) \<le> getInventoryInIngredientUnit item)"

text \<open>A cart in which every line of the given product has the given quantity instead of its own.\<close>

definition spec_withOwnQuantity :: "string \<Rightarrow> rat \<Rightarrow> CartItem list \<Rightarrow> CartItem list" where
  "spec_withOwnQuantity productId v c =
     map (\<lambda>line. if fp_id (product line) = productId then line\<lparr>quantity := v\<rparr> else line) c"

text \<open>The product ids of the cart's lines, in order; the cart has one line per product when they are distinct.\<close>

definition cartProductIds :: "CartItem list \<Rightarrow> string list" where
  "cartProductIds c = map (\<lambda>line. fp_id (product line)) c"

text \<open>A cart in which the first line of the given product has the given quantity.\<close>

fun spec_overwriteFirst :: "string \<Rightarrow> rat \<Rightarrow> CartItem list \<Rightarrow> CartItem list" where
  "spec_overwriteFirst productId v [] = []"
| "spec_overwriteFirst productId v (line # rest) =
     (if fp_id (product line) = productId then line\<lparr>quantity := v\<rparr> # rest
      else line # spec_overwriteFirst productId v rest)"








text \<open>The cart and the three selections are the same in both states.\<close>

definition selectionsKept :: "state \<Rightarrow> state \<Rightarrow> bool" where
  "selectionsKept s s' =
     (cart s' = cart s \<and> selectedPaymentMethod s' = selectedPaymentMethod s \<and>
      selectedCustomerType s' = selectedCustomerType s \<and>
      selectedDineInTakeout s' = selectedDineInTakeout s)"

section \<open>Example states\<close>

text \<open>
  One weight ingredient, flour, with 1 kg (1000 g) in stock, and two finished products:
  A takes 200 g of flour per unit and B takes 300 g.
\<close>

definition flour :: InventoryItem where
  "flour = \<lparr>inv_id = ''flour'', inv_name = ''Flour'', inv_qty = 1, cost = 1 / 20,
            unit_type = Weight\<rparr>"

definition productA :: FinishedProduct where
  "productA = \<lparr>fp_id = ''A'', fp_name = ''Product A'', image_url = None,
               selling_price = 50, created_at = [], updated_at = []\<rparr>"

definition productB :: FinishedProduct where
  "productB = \<lparr>fp_id = ''B'', fp_name = ''Product B'', image_url = None,
               selling_price = 80, created_at = [], updated_at = []\<rparr>"

definition recipeA :: "ProductIngredient list" where
  "recipeA = [\<lparr>pi_id = ''a1'', product_id = ''A'', item_id = ''flour'', pi_qty = 200\<rparr>]"

definition recipeB :: "ProductIngredient list" where
  "recipeB = [\<lparr>pi_id = ''b1'', product_id = ''B'', item_id = ''flour'', pi_qty = 300\<rparr>]"

definition bakery :: "CartItem list \<Rightarrow> state" where
  "bakery c =
     \<lparr>inventoryItems = [flour],
      productIngredients = [''A'' \<mapsto> recipeA, ''B'' \<mapsto> recipeB],
      dineInEnabled = False,
      cart = c,
      selectedPaymentMethod = ''Cash'',
      selectedCustomerType = ''Regular'',
      selectedDineInTakeout = None,
      isCheckingOut = False,
      selectedProduct = None,
      modalQuantity = 1\<rparr>"

definition lineA :: "rat \<Rightarrow> CartItem" where
  "lineA n = \<lparr>product = productA, quantity = n, ingredients = recipeA\<rparr>"

definition lineB :: "rat \<Rightarrow> CartItem" where
  "lineB n = \<lparr>product = productB, quantity = n, ingredients = recipeB\<rparr>"


text \<open>The modal is open on product A with the given quantity entered.\<close>

definition addingA :: "CartItem list \<Rightarrow> rat \<Rightarrow> state" where
  "addingA c n = (bakery c)\<lparr>selectedProduct := Some productA, modalQuantity := n\<rparr>"

text \<open>
  The database holding the same flour row as the snapshot, a service that accepts every
  request, and one that accepts the insert and rejects every inventory update.
\<close>

definition noFailures :: env where
  "noFailures = \<lparr>transactionId = ''t1'', insertFails = False, updateFails = (\<lambda>_. False)\<rparr>"

definition bakeryDb :: database where
  "bakeryDb = \<lparr>sales_table = [], products_table = [flour]\<rparr>"

definition rejectedUpdates :: env where
  "rejectedUpdates = \<lparr>transactionId = ''t2'', insertFails = False, updateFails = (\<lambda>_. True)\<rparr>"

section \<open>Evaluation of concrete states\<close>

lemmas ex_defs = bakery_def flour_def productA_def productB_def recipeA_def recipeB_def
  lineA_def lineB_def

lemma floor_rat_numeral_div:
  "\<lfloor>numeral a / numeral b :: rat\<rfloor> = numeral a div numeral b"
  using floor_divide_of_int_eq [of "numeral a" "numeral b", where ?'a = rat] by simp

lemma floor_rat_neg_numeral_div:
  "\<lfloor>- (numeral a / numeral b) :: rat\<rfloor> = - numeral a div numeral b"
  using floor_divide_of_int_eq [of "- numeral a" "numeral b", where ?'a = rat] by simp

lemma floor_rat_one_div:
  "\<lfloor>1 / numeral b :: rat\<rfloor> = 1 div numeral b"
  using floor_divide_of_int_eq [of 1 "numeral b", where ?'a = rat] by simp

lemma floor_rat_neg_one_div:
  "\<lfloor>- (1 / numeral b) :: rat\<rfloor> = - 1 div numeral b"
  using floor_divide_of_int_eq [of "- 1" "numeral b", where ?'a = rat] by simp

lemmas calc_defs = ingredientsOf_def findItem_def getInventoryInIngredientUnit_def
  reserveStep_def cartQty_def cartReserved_def canSellProduct_def getMaxQuantity_def
  Math_floor_def Let_def
  floor_rat_numeral_div floor_rat_neg_numeral_div floor_rat_one_div floor_rat_neg_one_div


section \<open>The maximum sellable quantity\<close>

lemma foldl_reserveStep:
  "foldl (reserveStep s itemId) a cs = a + (\<Sum>c \<leftarrow> cs. spec_reservation s itemId c)"
  by (induction cs arbitrary: a)
     (simp_all add: reserveStep_def spec_reservation_def Let_def split: option.splits)

lemma cartReserved_spec: "cartReserved s productId itemId = spec_reservedByOthers s productId itemId"
  by (simp add: cartReserved_def spec_reservedByOthers_def foldl_reserveStep)


lemma maxQtyLoop_fails:
  "\<exists>l \<in> set ls. spec_lineFails s l \<Longrightarrow> maxQtyLoop s productId ls acc = Fin 0"
  by (induction ls arbitrary: acc)
     (auto simp: spec_lineFails_def Let_def split: option.splits)

lemma maxQtyLoop_step:
  "\<not> spec_lineFails s l \<Longrightarrow>
   maxQtyLoop s productId (l # ls) acc =
     maxQtyLoop s productId ls (Math_min acc (spec_possibleUnits s productId l))"
  by (auto simp: spec_lineFails_def spec_possibleUnits_def Let_def Math_floor_def
        getInventoryInIngredientUnit_def cartReserved_spec split: option.splits unit_type.splits)






section \<open>Sign and integrality of the maximum sellable quantity\<close>

lemma maxQtyLoop_Ints:
  "(\<And>m. acc = Fin m \<Longrightarrow> m \<in> \<int>) \<Longrightarrow> maxQtyLoop s productId ls acc = Fin r \<Longrightarrow> r \<in> \<int>"
proof (induction ls arbitrary: acc)
  case Nil
  then show ?case by simp
next
  case (Cons l ls)
  show ?case
  proof (cases "spec_lineFails s l")
    case True
    then have "maxQtyLoop s productId (l # ls) acc = Fin 0"
      by (intro maxQtyLoop_fails) simp
    with Cons.prems show ?thesis by simp
  next
    case False
    have "\<And>m. Math_min acc (spec_possibleUnits s productId l) = Fin m \<Longrightarrow> m \<in> \<int>"
      using Cons.prems(1)
      by (cases acc) (auto simp: spec_possibleUnits_def min_def split: option.splits)
    moreover have "maxQtyLoop s productId ls (Math_min acc (spec_possibleUnits s productId l)) = Fin r"
      using Cons.prems(2) False by (simp add: maxQtyLoop_step del: maxQtyLoop.simps)
    ultimately show ?thesis by (rule Cons.IH)
  qed
qed

lemma getMaxQuantity_Ints: "getMaxQuantity s productId \<in> \<int>"
proof (cases "maxQtyLoop s productId (ingredientsOf s productId) Infinity")
  case Infinity
  then show ?thesis by (simp add: getMaxQuantity_def Let_def)
next
  case (Fin r)
  then have "r \<in> \<int>" by (rule maxQtyLoop_Ints [rotated]) simp
  with Fin show ?thesis by (simp add: getMaxQuantity_def Let_def)
qed

lemma spec_possibleUnits_nonneg:
  "0 \<le> pi_qty l \<Longrightarrow> stockCoversReservations s productId l \<Longrightarrow>
   0 \<le> spec_possibleUnits s productId l"
  by (auto simp: spec_possibleUnits_def stockCoversReservations_def cartReserved_spec
        getInventoryInIngredientUnit_def split: option.splits unit_type.splits)

lemma maxQtyLoop_nonneg:
  "(\<And>m. acc = Fin m \<Longrightarrow> 0 \<le> m) \<Longrightarrow>
   \<forall>l \<in> set ls. 0 \<le> pi_qty l \<and> stockCoversReservations s productId l \<Longrightarrow>
   maxQtyLoop s productId ls acc = Fin r \<Longrightarrow> 0 \<le> r"
proof (induction ls arbitrary: acc)
  case Nil
  then show ?case by simp
next
  case (Cons l ls)
  show ?case
  proof (cases "spec_lineFails s l")
    case True
    then have "maxQtyLoop s productId (l # ls) acc = Fin 0"
      by (intro maxQtyLoop_fails) simp
    with Cons.prems show ?thesis by simp
  next
    case False
    have "0 \<le> spec_possibleUnits s productId l"
      using Cons.prems(2) by (simp add: spec_possibleUnits_nonneg)
    then have "\<And>m. Math_min acc (spec_possibleUnits s productId l) = Fin m \<Longrightarrow> 0 \<le> m"
      using Cons.prems(1) by (cases acc) (auto simp: min_def)
    moreover have "\<forall>l \<in> set ls. 0 \<le> pi_qty l \<and> stockCoversReservations s productId l"
      using Cons.prems(2) by simp
    moreover have "maxQtyLoop s productId ls (Math_min acc (spec_possibleUnits s productId l)) = Fin r"
      using Cons.prems(3) False by (simp add: maxQtyLoop_step del: maxQtyLoop.simps)
    ultimately show ?thesis by (rule Cons.IH)
  qed
qed

text \<open>
  Claim C2, as amended.  \<^verbatim>\<open>getMaxQuantity\<close> always returns an integer.  It is
  non-negative when every recipe line of the product has a non-negative quantity per unit
  and the stock of its ingredient covers what the other cart lines reserve of it.
\<close>

theorem getMaxQuantity_integer_nonneg:
  "getMaxQuantity s productId \<in> \<int> \<and>
   ((\<forall>l \<in> set (ingredientsOf s productId).
        0 \<le> pi_qty l \<and> stockCoversReservations s productId l)
      \<longrightarrow> 0 \<le> getMaxQuantity s productId)"
proof (intro conjI impI)
  show "getMaxQuantity s productId \<in> \<int>" by (rule getMaxQuantity_Ints)
next
  assume a: "\<forall>l \<in> set (ingredientsOf s productId).
        0 \<le> pi_qty l \<and> stockCoversReservations s productId l"
  show "0 \<le> getMaxQuantity s productId"
  proof (cases "maxQtyLoop s productId (ingredientsOf s productId) Infinity")
    case Infinity
    then show ?thesis by (simp add: getMaxQuantity_def Let_def)
  next
    case (Fin r)
    have "0 \<le> r" by (rule maxQtyLoop_nonneg [OF _ a Fin]) simp
    with Fin show ?thesis by (simp add: getMaxQuantity_def Let_def)
  qed
qed

theorem getMaxQuantity_integer_nonneg_witness:
  "list_all (\<lambda>l. 0 \<le> pi_qty l \<and> stockCoversReservations (bakery [lineB 1]) ''A'' l)
     (ingredientsOf (bakery [lineB 1]) ''A'') \<and>
   getMaxQuantity (bakery [lineB 1]) ''A'' \<in> \<int> \<and>
   0 \<le> getMaxQuantity (bakery [lineB 1]) ''A''"
proof -
  have h: "list_all (\<lambda>l. 0 \<le> pi_qty l \<and> stockCoversReservations (bakery [lineB 1]) ''A'' l)
     (ingredientsOf (bakery [lineB 1]) ''A'')"
    by (simp add: ex_defs calc_defs stockCoversReservations_def)
  with getMaxQuantity_integer_nonneg [of "bakery [lineB 1]" "''A''"]
  show ?thesis by (simp add: list_all_iff)
qed

text \<open>
  Without that condition the result can be negative: with 1000 g of flour and four units
  of B in the cart (1200 g reserved), the maximum for A is \<open>\<lfloor>(1000 - 1200) / 200\<rfloor> = -1\<close>.
\<close>

theorem getMaxQuantity_negative_counterexample:
  "getMaxQuantity (bakery [lineB 4]) ''A'' = - 1"
  by (simp add: ex_defs calc_defs)

section \<open>Adding to the cart\<close>

lemma findIndex_nonneg_iff: "0 \<le> findIndex P xs \<longleftrightarrow> (\<exists>x \<in> set xs. P x)"
  by (induction xs) (auto simp: Let_def)

lemma findIndex_update:
  "0 \<le> findIndex (\<lambda>line. fp_id (product line) = productId) c \<Longrightarrow>
   c[nat (findIndex (\<lambda>line. fp_id (product line) = productId) c) :=
       (c ! nat (findIndex (\<lambda>line. fp_id (product line) = productId) c))\<lparr>quantity := v\<rparr>]
   = spec_overwriteFirst productId v c"
proof (induction c)
  case Nil
  then show ?case by simp
next
  case (Cons line rest)
  show ?case
  proof (cases "fp_id (product line) = productId")
    case True
    then show ?thesis by simp
  next
    case False
    with Cons.prems have nn: "0 \<le> findIndex (\<lambda>line. fp_id (product line) = productId) rest"
      by (simp add: Let_def split: if_splits)
    then have "nat (findIndex (\<lambda>line. fp_id (product line) = productId) rest + 1) =
        Suc (nat (findIndex (\<lambda>line. fp_id (product line) = productId) rest))"
      by simp
    with False nn Cons.IH [OF nn] show ?thesis by (simp add: Let_def)
  qed
qed

lemma cartProductIds_overwriteFirst:
  "cartProductIds (spec_overwriteFirst productId v c) = cartProductIds c"
  by (induction c) (simp_all add: cartProductIds_def)

lemma overwriteFirst_distinct:
  "distinct (cartProductIds c) \<Longrightarrow>
   spec_overwriteFirst productId v c = spec_withOwnQuantity productId v c"
proof (induction c)
  case Nil
  then show ?case by (simp add: spec_withOwnQuantity_def)
next
  case (Cons line rest)
  show ?case
  proof (cases "fp_id (product line) = productId")
    case True
    with Cons.prems have "\<forall>l \<in> set rest. fp_id (product l) \<noteq> productId"
      by (auto simp: cartProductIds_def image_iff)
    then have "map (\<lambda>l. if fp_id (product l) = productId then l\<lparr>quantity := v\<rparr> else l) rest = rest"
      by (induction rest) simp_all
    with True show ?thesis by (simp add: spec_withOwnQuantity_def)
  next
    case False
    with Cons show ?thesis by (simp add: spec_withOwnQuantity_def cartProductIds_def)
  qed
qed

lemma cartProductIds_withOwnQuantity:
  "cartProductIds (spec_withOwnQuantity productId v c) = cartProductIds c"
  by (induction c) (simp_all add: cartProductIds_def spec_withOwnQuantity_def)

text \<open>What addToCart does once its three checks have passed.\<close>

lemma addToCart_accepted:
  assumes "selectedProduct s = Some sp" "0 < modalQuantity s"
    "modalQuantity s \<le> getMaxQuantity s (fp_id sp)"
  shows "addToCart s =
     (if fp_id sp \<in> set (cartProductIds (cart s))
      then (Some (Success ''Cart updated''),
            closeProductModal (s\<lparr>cart := spec_overwriteFirst (fp_id sp) (modalQuantity s) (cart s)\<rparr>))
      else (Some (Success ''Added to cart''),
            closeProductModal (s\<lparr>cart := cart s @
               [\<lparr>product = sp, quantity = modalQuantity s,
                 ingredients = ingredientsOf s (fp_id sp)\<rparr>]\<rparr>)))"
proof -
  have ne: "ingredientsOf s (fp_id sp) \<noteq> []"
  proof
    assume "ingredientsOf s (fp_id sp) = []"
    then have "getMaxQuantity s (fp_id sp) = 0" by (simp add: getMaxQuantity_def)
    with assms show False by simp
  qed
  have mem: "fp_id sp \<in> set (cartProductIds (cart s)) \<longleftrightarrow>
      0 \<le> findIndex (\<lambda>item. fp_id (product item) = fp_id sp) (cart s)"
    unfolding findIndex_nonneg_iff cartProductIds_def by (simp add: image_iff) metis
  show ?thesis
  proof (cases "fp_id sp \<in> set (cartProductIds (cart s))")
    case True
    with mem have nn: "0 \<le> findIndex (\<lambda>item. fp_id (product item) = fp_id sp) (cart s)"
      by simp
    from True assms ne nn show ?thesis
      by (simp add: addToCart_def Let_def findIndex_update [OF nn] not_le [symmetric])
  next
    case False
    with mem have "\<not> 0 \<le> findIndex (\<lambda>item. fp_id (product item) = fp_id sp) (cart s)"
      by simp
    with False assms ne show ?thesis
      by (simp add: addToCart_def Let_def not_le [symmetric])
  qed
qed

lemma addToCart_rejected:
  assumes "selectedProduct s = Some sp"
    "modalQuantity s \<le> 0 \<or> getMaxQuantity s (fp_id sp) < modalQuantity s"
  shows "(\<exists>msg. fst (addToCart s) = Some (Error msg)) \<and> snd (addToCart s) = s"
  using assms by (auto simp: addToCart_def Let_def)

text \<open>
  Claim C4, as amended.  With product P selected in the modal: when the entered quantity
  equals \<^verbatim>\<open>getMaxQuantity(P)\<close> and that maximum is positive, \<^verbatim>\<open>addToCart\<close> succeeds, the
  line being appended or the existing line for P overwritten; when the entered quantity is
  \<^verbatim>\<open>getMaxQuantity(P) + 1\<close> or is not positive, \<^verbatim>\<open>addToCart\<close> shows an error and leaves the
  whole state, and so the cart and the payment method, customer type and dine-in
  selections, unchanged.
\<close>

theorem addToCart_boundary:
  assumes "selectedProduct s = Some P"
  shows
    "(modalQuantity s = getMaxQuantity s (fp_id P) \<and> 0 < getMaxQuantity s (fp_id P) \<longrightarrow>
        addToCart s =
          (if fp_id P \<in> set (cartProductIds (cart s))
           then (Some (Success ''Cart updated''),
                 closeProductModal
                   (s\<lparr>cart := spec_overwriteFirst (fp_id P) (modalQuantity s) (cart s)\<rparr>))
           else (Some (Success ''Added to cart''),
                 closeProductModal
                   (s\<lparr>cart := cart s @
                      [\<lparr>product = P, quantity = modalQuantity s,
                        ingredients = ingredientsOf s (fp_id P)\<rparr>]\<rparr>)))) \<and>
     (modalQuantity s = getMaxQuantity s (fp_id P) + 1 \<or> modalQuantity s \<le> 0 \<longrightarrow>
        (\<exists>msg. fst (addToCart s) = Some (Error msg)) \<and> snd (addToCart s) = s)"
proof (rule conjI; rule impI)
  assume a: "modalQuantity s = getMaxQuantity s (fp_id P) \<and> 0 < getMaxQuantity s (fp_id P)"
  then have "0 < modalQuantity s" "modalQuantity s \<le> getMaxQuantity s (fp_id P)"
    by simp_all
  with assms show "addToCart s =
          (if fp_id P \<in> set (cartProductIds (cart s))
           then (Some (Success ''Cart updated''),
                 closeProductModal
                   (s\<lparr>cart := spec_overwriteFirst (fp_id P) (modalQuantity s) (cart s)\<rparr>))
           else (Some (Success ''Added to cart''),
                 closeProductModal
                   (s\<lparr>cart := cart s @
                      [\<lparr>product = P, quantity = modalQuantity s,
                        ingredients = ingredientsOf s (fp_id P)\<rparr>]\<rparr>)))"
    by (rule addToCart_accepted)
next
  assume "modalQuantity s = getMaxQuantity s (fp_id P) + 1 \<or> modalQuantity s \<le> 0"
  then have "modalQuantity s \<le> 0 \<or> getMaxQuantity s (fp_id P) < modalQuantity s"
    by auto
  with assms show "(\<exists>msg. fst (addToCart s) = Some (Error msg)) \<and> snd (addToCart s) = s"
    by (rule addToCart_rejected)
qed

theorem addToCart_boundary_witness:
  "selectedProduct (addingA [lineB 1] 3) = Some productA \<and>
   modalQuantity (addingA [lineB 1] 3) = getMaxQuantity (addingA [lineB 1] 3) (fp_id productA) \<and>
   0 < getMaxQuantity (addingA [lineB 1] 3) (fp_id productA) \<and>
   cart (snd (addToCart (addingA [lineB 1] 3))) = [lineB 1, lineA 3] \<and>
   modalQuantity (addingA [lineB 1] 4) = getMaxQuantity (addingA [lineB 1] 4) (fp_id productA) + 1 \<and>
   snd (addToCart (addingA [lineB 1] 4)) = addingA [lineB 1] 4"
proof -
  have p3: "selectedProduct (addingA [lineB 1] 3) = Some productA"
    and p4: "selectedProduct (addingA [lineB 1] 4) = Some productA"
    by (simp_all add: addingA_def)
  have m3: "getMaxQuantity (addingA [lineB 1] 3) (fp_id productA) = 3"
    and m4: "getMaxQuantity (addingA [lineB 1] 4) (fp_id productA) = 3"
    by (simp_all add: addingA_def ex_defs calc_defs)
  have q3: "modalQuantity (addingA [lineB 1] 3) = 3"
    and q4: "modalQuantity (addingA [lineB 1] 4) = 4"
    by (simp_all add: addingA_def)
  have ids: "fp_id productA \<notin> set (cartProductIds (cart (addingA [lineB 1] 3)))"
    by (simp add: addingA_def ex_defs cartProductIds_def)
  have "cart (snd (addToCart (addingA [lineB 1] 3))) = [lineB 1, lineA 3]"
    using addToCart_boundary [OF p3] m3 q3 ids
    by (simp add: closeProductModal_def) (simp add: addingA_def ex_defs ingredientsOf_def)
  moreover have "snd (addToCart (addingA [lineB 1] 4)) = addingA [lineB 1] 4"
    using addToCart_boundary [OF p4] m4 q4 by simp
  ultimately show ?thesis using p3 m3 m4 q3 q4 by simp
qed

text \<open>
  A maximum of 0 is itself rejected by the check for a positive quantity: with three units
  of B in the cart, 100 g of flour remain, the maximum for A is 0, and adding 0 units of A
  is refused.
\<close>

theorem addToCart_max_rejected_counterexample:
  "selectedProduct (addingA [lineB 3] 0) = Some productA \<and>
   modalQuantity (addingA [lineB 3] 0) = getMaxQuantity (addingA [lineB 3] 0) (fp_id productA) \<and>
   addToCart (addingA [lineB 3] 0) =
     (Some (Error ''Please enter a valid quantity''), addingA [lineB 3] 0)"
proof -
  have "getMaxQuantity (addingA [lineB 3] 0) (fp_id productA) = 0"
    by (simp add: addingA_def ex_defs calc_defs)
  moreover have "modalQuantity (addingA [lineB 3] 0) = 0"
    and "selectedProduct (addingA [lineB 3] 0) = Some productA"
    by (simp_all add: addingA_def)
  ultimately show ?thesis by (simp add: addToCart_def)
qed

section \<open>Self-exclusion\<close>

lemma others_withOwnQuantity:
  "filter (\<lambda>c. fp_id (product c) \<noteq> productId) (spec_withOwnQuantity productId v c) =
   filter (\<lambda>c. fp_id (product c) \<noteq> productId) c"
  by (induction c) (simp_all add: spec_withOwnQuantity_def)

lemma ingredientsOf_cart: "ingredientsOf (s\<lparr>cart := c\<rparr>) = ingredientsOf s"
  by (simp add: ingredientsOf_def fun_eq_iff)

lemma findItem_cart: "findItem (s\<lparr>cart := c\<rparr>) = findItem s"
  by (simp add: findItem_def fun_eq_iff)

lemmas cart_frame = ingredientsOf_cart findItem_cart

lemma reserveStep_cart: "reserveStep (s\<lparr>cart := c\<rparr>) = reserveStep s"
  by (simp add: reserveStep_def fun_eq_iff ingredientsOf_cart)

lemma cartReserved_own:
  "cartReserved (s\<lparr>cart := spec_withOwnQuantity productId v (cart s)\<rparr>) productId itemId =
   cartReserved s productId itemId"
  by (simp add: cartReserved_def others_withOwnQuantity reserveStep_cart)

lemma cartQty_own:
  "cartQty (s\<lparr>cart := spec_withOwnQuantity productId v (cart s)\<rparr>) productId itemId =
   cartQty s productId itemId"
  by (simp add: cartQty_def others_withOwnQuantity reserveStep_cart)

lemma maxQtyLoop_own:
  "maxQtyLoop (s\<lparr>cart := spec_withOwnQuantity productId v (cart s)\<rparr>) productId ls acc =
   maxQtyLoop s productId ls acc"
  by (induction ls arbitrary: acc)
     (simp_all add: cartReserved_own cart_frame Let_def split: option.splits)

lemma canSellLoop_own:
  "canSellLoop (s\<lparr>cart := spec_withOwnQuantity productId v (cart s)\<rparr>) productId q ls =
   canSellLoop s productId q ls"
  by (induction ls) (simp_all add: cartQty_own cart_frame Let_def split: option.splits)

text \<open>
  Claim C5.  \<^verbatim>\<open>getMaxQuantity(P)\<close> and \<^verbatim>\<open>canSellProduct(P, q)\<close> do not depend on the
  quantity of the cart's own line for P: reservations are summed over the lines of other
  products only, so giving the lines of P any other quantity changes neither result.
\<close>

theorem self_exclusion:
  "getMaxQuantity (s\<lparr>cart := spec_withOwnQuantity productId v (cart s)\<rparr>) productId =
     getMaxQuantity s productId \<and>
   canSellProduct (s\<lparr>cart := spec_withOwnQuantity productId v (cart s)\<rparr>) productId q =
     canSellProduct s productId q"
  by (simp add: getMaxQuantity_def canSellProduct_def maxQtyLoop_own canSellLoop_own
        ingredientsOf_cart Let_def)

theorem self_exclusion_witness:
  "cart ((bakery [lineA 1, lineB 1])\<lparr>cart := spec_withOwnQuantity ''A'' 3 (cart (bakery [lineA 1, lineB 1]))\<rparr>)
     = [lineA 3, lineB 1] \<and>
   getMaxQuantity (bakery [lineA 3, lineB 1]) ''A'' = getMaxQuantity (bakery [lineA 1, lineB 1]) ''A'' \<and>
   canSellProduct (bakery [lineA 3, lineB 1]) ''A'' 3 = canSellProduct (bakery [lineA 1, lineB 1]) ''A'' 3"
proof -
  have c: "(bakery [lineA 1, lineB 1])\<lparr>cart := spec_withOwnQuantity ''A'' 3 (cart (bakery [lineA 1, lineB 1]))\<rparr>
       = bakery [lineA 3, lineB 1]"
    by (simp add: ex_defs spec_withOwnQuantity_def)
  show ?thesis
    using self_exclusion [where s = "bakery [lineA 1, lineB 1]" and productId = "''A''"
        and v = 3 and q = 3]
    unfolding c by (simp add: bakery_def)
qed

section \<open>Unit conversion\<close>

text \<open>
  Claim C7.  Writing a gram value in the storage unit (divided by 1000 for a weight item)
  and reading it back in the recipe's unit (multiplied by 1000) gives the gram value again,
  in exact rational arithmetic.
\<close>

theorem weight_round_trip:
  "getInventoryInIngredientUnit (item\<lparr>inv_qty := deductionInStorageUnit item g\<rparr>) = g"
  by (simp add: getInventoryInIngredientUnit_def deductionInStorageUnit_def)

theorem weight_round_trip_witness:
  "deductionInStorageUnit flour 700 = 7 / 10 \<and>
   getInventoryInIngredientUnit (flour\<lparr>inv_qty := 7 / 10\<rparr>) = 700"
proof -
  have d: "deductionInStorageUnit flour 700 = 7 / 10"
    by (simp add: deductionInStorageUnit_def flour_def)
  with weight_round_trip [of flour 700] show ?thesis by simp
qed

section \<open>One cart line per product\<close>

lemma addToCart_cases:
  "snd (addToCart s) = s \<or>
   (\<exists>sp. selectedProduct s = Some sp \<and> 0 < modalQuantity s \<and>
      modalQuantity s \<le> getMaxQuantity s (fp_id sp))"
  by (auto simp: addToCart_def Let_def split: option.splits)

lemma addToCart_distinct:
  assumes "distinct (cartProductIds (cart s))"
  shows "distinct (cartProductIds (cart (snd (addToCart s))))"
proof -
  from addToCart_cases [of s] show ?thesis
  proof
    assume "snd (addToCart s) = s"
    with assms show ?thesis by simp
  next
    assume "\<exists>sp. selectedProduct s = Some sp \<and> 0 < modalQuantity s \<and>
      modalQuantity s \<le> getMaxQuantity s (fp_id sp)"
    then obtain sp where sp: "selectedProduct s = Some sp" "0 < modalQuantity s"
      "modalQuantity s \<le> getMaxQuantity s (fp_id sp)" by blast
    show ?thesis
      using assms unfolding addToCart_accepted [OF sp]
      by (simp add: closeProductModal_def cartProductIds_overwriteFirst)
         (simp add: cartProductIds_def)
  qed
qed

lemma filter_distinct_ids:
  "distinct (cartProductIds c) \<Longrightarrow> distinct (cartProductIds (filter Q c))"
  by (simp add: cartProductIds_def distinct_map_filter)

lemma updateCartQuantity_cart:
  "cart (snd (updateCartQuantity s productId n)) =
     (if n \<le> 0 then filter (\<lambda>item. fp_id (product item) \<noteq> productId) (cart s)
      else if getMaxQuantity s productId < n then cart s
      else spec_withOwnQuantity productId n (cart s))"
  by (simp add: updateCartQuantity_def removeFromCart_def Let_def spec_withOwnQuantity_def)

text \<open>
  Claim C9.  \<^verbatim>\<open>addToCart\<close>, \<^verbatim>\<open>updateCartQuantity\<close>, \<^verbatim>\<open>removeFromCart\<close> and \<^verbatim>\<open>clearCart\<close>
  keep the cart at one line per product id.  An accepted \<^verbatim>\<open>addToCart\<close> for a product
  already in the cart overwrites the quantity of its line and adds no line, and
  \<^verbatim>\<open>updateCartQuantity\<close> with a new quantity of 0 or less removes the product's line.
\<close>

theorem cart_one_line_per_product:
  assumes "distinct (cartProductIds (cart s))"
  shows
    "distinct (cartProductIds (cart (snd (addToCart s)))) \<and>
     distinct (cartProductIds (cart (snd (updateCartQuantity s productId n)))) \<and>
     distinct (cartProductIds (cart (snd (removeFromCart s productId)))) \<and>
     distinct (cartProductIds (cart (clearCart s))) \<and>
     (\<forall>sp. selectedProduct s = Some sp \<and> fp_id sp \<in> set (cartProductIds (cart s)) \<and>
           0 < modalQuantity s \<and> modalQuantity s \<le> getMaxQuantity s (fp_id sp) \<longrightarrow>
           cart (snd (addToCart s)) =
             spec_withOwnQuantity (fp_id sp) (modalQuantity s) (cart s) \<and>
           length (cart (snd (addToCart s))) = length (cart s)) \<and>
     (n \<le> 0 \<longrightarrow>
        cart (snd (updateCartQuantity s productId n)) =
          filter (\<lambda>item. fp_id (product item) \<noteq> productId) (cart s) \<and>
        productId \<notin> set (cartProductIds (cart (snd (updateCartQuantity s productId n)))))"
proof (intro conjI allI impI)
  show "distinct (cartProductIds (cart (snd (addToCart s))))"
    using assms by (rule addToCart_distinct)
next
  show "distinct (cartProductIds (cart (snd (updateCartQuantity s productId n))))"
    using assms
    by (simp add: updateCartQuantity_cart filter_distinct_ids cartProductIds_withOwnQuantity)
next
  show "distinct (cartProductIds (cart (snd (removeFromCart s productId))))"
    using assms by (simp add: removeFromCart_def filter_distinct_ids)
next
  show "distinct (cartProductIds (cart (clearCart s)))"
    by (simp add: clearCart_def cartProductIds_def)
next
  fix sp
  assume a: "selectedProduct s = Some sp \<and> fp_id sp \<in> set (cartProductIds (cart s)) \<and>
           0 < modalQuantity s \<and> modalQuantity s \<le> getMaxQuantity s (fp_id sp)"
  then have acc: "addToCart s = (Some (Success ''Cart updated''),
            closeProductModal
              (s\<lparr>cart := spec_overwriteFirst (fp_id sp) (modalQuantity s) (cart s)\<rparr>))"
    by (simp add: addToCart_accepted)
  then have c: "cart (snd (addToCart s)) =
      spec_overwriteFirst (fp_id sp) (modalQuantity s) (cart s)"
    by (simp add: closeProductModal_def)
  with assms show "cart (snd (addToCart s)) =
             spec_withOwnQuantity (fp_id sp) (modalQuantity s) (cart s)"
    by (simp add: overwriteFirst_distinct)
  then show "length (cart (snd (addToCart s))) = length (cart s)"
    by (simp add: spec_withOwnQuantity_def)
next
  assume "n \<le> 0"
  then show "cart (snd (updateCartQuantity s productId n)) =
          filter (\<lambda>item. fp_id (product item) \<noteq> productId) (cart s)"
    by (simp add: updateCartQuantity_cart)
  then show "productId \<notin> set (cartProductIds (cart (snd (updateCartQuantity s productId n))))"
    by (auto simp: cartProductIds_def)
qed

theorem cart_one_line_per_product_witness:
  "distinct (cartProductIds (cart (addingA [lineA 1, lineB 1] 2))) \<and>
   distinct (cartProductIds (cart (snd (addToCart (addingA [lineA 1, lineB 1] 2))))) \<and>
   cart (snd (addToCart (addingA [lineA 1, lineB 1] 2))) = [lineA 2, lineB 1] \<and>
   cart (snd (updateCartQuantity (addingA [lineA 1, lineB 1] 2) ''B'' 0)) = [lineA 1]"
proof -
  have d: "distinct (cartProductIds (cart (addingA [lineA 1, lineB 1] 2)))"
    by (simp add: addingA_def ex_defs cartProductIds_def)
  have m: "getMaxQuantity (addingA [lineA 1, lineB 1] 2) (fp_id productA) = 3"
    by (simp add: addingA_def ex_defs calc_defs)
  have sel: "selectedProduct (addingA [lineA 1, lineB 1] 2) = Some productA"
    "modalQuantity (addingA [lineA 1, lineB 1] 2) = 2"
    "fp_id productA \<in> set (cartProductIds (cart (addingA [lineA 1, lineB 1] 2)))"
    by (simp_all add: addingA_def ex_defs cartProductIds_def)
  have w: "spec_withOwnQuantity (fp_id productA) 2 (cart (addingA [lineA 1, lineB 1] 2))
      = [lineA 2, lineB 1]"
    by (simp add: addingA_def ex_defs spec_withOwnQuantity_def)
  have f: "filter (\<lambda>item. fp_id (product item) \<noteq> ''B'') (cart (addingA [lineA 1, lineB 1] 2))
      = [lineA 1]"
    by (simp add: addingA_def ex_defs)
  have d': "distinct (cartProductIds [lineA 2, lineB 1])"
    by (simp add: ex_defs cartProductIds_def)
  from cart_one_line_per_product [OF d, of "''B''" 0] d m sel w f d'
  show ?thesis by simp
qed

section \<open>When a product cannot be sold\<close>





section \<open>Checkout\<close>

subsection \<open>The ingredient deductions\<close>



















subsection \<open>The four outcomes of checkout\<close>

lemma handleCheckout_rejected:
  "validateCheckout s = Some msg \<Longrightarrow>
   handleCheckout e s db =
     \<lparr>ck_toast = Error msg, ck_state = s, ck_db = db, ck_recentSale = None\<rparr>"
  by (simp add: handleCheckout_def)

lemma handleCheckout_insert_failed:
  "validateCheckout s = None \<Longrightarrow> insertFails e \<Longrightarrow>
   handleCheckout e s db =
     \<lparr>ck_toast = Error ''Failed to process sale'', ck_state = s\<lparr>isCheckingOut := False\<rparr>,
      ck_db = db, ck_recentSale = None\<rparr>"
  by (simp add: handleCheckout_def Let_def)

lemma handleCheckout_update_failed:
  "validateCheckout s = None \<Longrightarrow> \<not> insertFails e \<Longrightarrow>
   inventoryErrors e (inventoryUpdates s (ingredientDeductions s)) \<noteq> [] \<Longrightarrow>
   handleCheckout e s db =
     \<lparr>ck_toast = Error ''Failed to process sale'', ck_state = s\<lparr>isCheckingOut := False\<rparr>,
      ck_db = db\<lparr>sales_table := sales_table db @ saleRecords e s,
                  products_table := foldl (applyUpdate e) (products_table db)
                                      (inventoryUpdates s (ingredientDeductions s))\<rparr>,
      ck_recentSale = None\<rparr>"
  by (simp add: handleCheckout_def Let_def)

lemma handleCheckout_completed:
  "validateCheckout s = None \<Longrightarrow> \<not> insertFails e \<Longrightarrow>
   inventoryErrors e (inventoryUpdates s (ingredientDeductions s)) = [] \<Longrightarrow>
   handleCheckout e s db =
     \<lparr>ck_toast = SaleCompleted
         (foldl (\<lambda>sum item. sum + (quantity item * selling_price (product item))) 0 (cart s)),
      ck_state = (clearCart s)\<lparr>isCheckingOut := False\<rparr>,
      ck_db = db\<lparr>sales_table := sales_table db @ saleRecords e s,
                  products_table := foldl (applyUpdate e) (products_table db)
                                      (inventoryUpdates s (ingredientDeductions s))\<rparr>,
      ck_recentSale = (case saleRecords e s of [] \<Rightarrow> None | r # _ \<Rightarrow> Some r)\<rparr>"
  by (simp add: handleCheckout_def Let_def)

lemma completed_only_when:
  assumes "ck_toast (handleCheckout e s db) = SaleCompleted t"
  shows "validateCheckout s = None \<and> \<not> insertFails e \<and>
         inventoryErrors e (inventoryUpdates s (ingredientDeductions s)) = []"
proof (cases "validateCheckout s")
  case (Some msg)
  with assms show ?thesis by (simp add: handleCheckout_rejected)
next
  case None
  show ?thesis
  proof (cases "insertFails e")
    case True
    with None assms show ?thesis by (simp add: handleCheckout_insert_failed)
  next
    case False
    show ?thesis
    proof (cases "inventoryErrors e (inventoryUpdates s (ingredientDeductions s)) = []")
      case True
      with None False show ?thesis by simp
    next
      case e: False
      with None False assms show ?thesis by (simp add: handleCheckout_update_failed)
    qed
  qed
qed







lemma bakery_validates: "validateCheckout (bakery [lineA 2, lineB 1]) = None"
  by (simp add: validateCheckout_def ex_defs calc_defs)

lemma bakery_deductions: "ingredientDeductions (bakery [lineA 2, lineB 1]) = [(''flour'', 700)]"
  by (simp add: ingredientDeductions_def deductStep_def ex_defs calc_defs)

lemma bakery_updates:
  "inventoryUpdates (bakery [lineA 2, lineB 1]) [(''flour'', 700)] = [(''flour'', 3 / 10)]"
  by (simp add: inventoryUpdates_def deductionInStorageUnit_def ex_defs calc_defs)


subsection \<open>One combined decrement per ingredient\<close>



subsection \<open>A rejected inventory update\<close>

text \<open>
  Claim C6.  When the validation passes, the insert of the sale records is accepted and
  some inventory update is rejected, checkout shows the failure toast, the sale records
  stay in the \<^verbatim>\<open>sales\<close> table, and the cart and the selections are kept.  Whenever checkout
  does not complete, the cart and the selections are kept; when it completes, no request
  was rejected and the state is that of \<^verbatim>\<open>clearCart\<close>.
\<close>

theorem checkout_partial_failure:
  "(validateCheckout s = None \<and> \<not> insertFails e \<and>
    (\<exists>u \<in> set (inventoryUpdates s (ingredientDeductions s)). updateFails e (fst u)) \<longrightarrow>
      ck_toast (handleCheckout e s db) = Error ''Failed to process sale'' \<and>
      sales_table (ck_db (handleCheckout e s db)) = sales_table db @ saleRecords e s \<and>
      selectionsKept s (ck_state (handleCheckout e s db))) \<and>
   ((\<forall>t. ck_toast (handleCheckout e s db) \<noteq> SaleCompleted t) \<longrightarrow>
      selectionsKept s (ck_state (handleCheckout e s db))) \<and>
   (\<forall>t. ck_toast (handleCheckout e s db) = SaleCompleted t \<longrightarrow>
      ck_state (handleCheckout e s db) = (clearCart s)\<lparr>isCheckingOut := False\<rparr> \<and>
      \<not> insertFails e \<and>
      \<not> (\<exists>u \<in> set (inventoryUpdates s (ingredientDeductions s)). updateFails e (fst u)))"
proof (intro conjI allI impI)
  assume a: "validateCheckout s = None \<and> \<not> insertFails e \<and>
    (\<exists>u \<in> set (inventoryUpdates s (ingredientDeductions s)). updateFails e (fst u))"
  then have ne: "inventoryErrors e (inventoryUpdates s (ingredientDeductions s)) \<noteq> []"
    by (simp add: inventoryErrors_def filter_empty_conv)
  from a have v: "validateCheckout s = None" and i: "\<not> insertFails e" by simp_all
  show "ck_toast (handleCheckout e s db) = Error ''Failed to process sale''"
    and "sales_table (ck_db (handleCheckout e s db)) = sales_table db @ saleRecords e s"
    and "selectionsKept s (ck_state (handleCheckout e s db))"
    by (simp_all add: handleCheckout_update_failed [OF v i ne] selectionsKept_def)
next
  assume n: "\<forall>t. ck_toast (handleCheckout e s db) \<noteq> SaleCompleted t"
  show "selectionsKept s (ck_state (handleCheckout e s db))"
  proof (cases "validateCheckout s")
    case (Some msg)
    then show ?thesis by (simp add: handleCheckout_rejected selectionsKept_def)
  next
    case None
    show ?thesis
    proof (cases "insertFails e")
      case True
      with None show ?thesis by (simp add: handleCheckout_insert_failed selectionsKept_def)
    next
      case False
      show ?thesis
      proof (cases "inventoryErrors e (inventoryUpdates s (ingredientDeductions s)) = []")
        case True
        with None False n show ?thesis by (simp add: handleCheckout_completed)
      next
        case ne: False
        with None False show ?thesis
          by (simp add: handleCheckout_update_failed selectionsKept_def)
      qed
    qed
  qed
next
  fix t
  assume c: "ck_toast (handleCheckout e s db) = SaleCompleted t"
  from completed_only_when [OF c]
  have v: "validateCheckout s = None" and i: "\<not> insertFails e"
    and u: "inventoryErrors e (inventoryUpdates s (ingredientDeductions s)) = []" by simp_all
  show "ck_state (handleCheckout e s db) = (clearCart s)\<lparr>isCheckingOut := False\<rparr>"
    by (simp add: handleCheckout_completed [OF v i u])
  show "\<not> insertFails e" by (rule i)
  from u show "\<not> (\<exists>u \<in> set (inventoryUpdates s (ingredientDeductions s)). updateFails e (fst u))"
    by (simp add: inventoryErrors_def filter_empty_conv)
qed

theorem checkout_partial_failure_witness:
  "validateCheckout (bakery [lineA 2, lineB 1]) = None \<and> \<not> insertFails rejectedUpdates \<and>
   list_ex (\<lambda>u. updateFails rejectedUpdates (fst u))
     (inventoryUpdates (bakery [lineA 2, lineB 1])
        (ingredientDeductions (bakery [lineA 2, lineB 1]))) \<and>
   ck_toast (handleCheckout rejectedUpdates (bakery [lineA 2, lineB 1]) bakeryDb)
     = Error ''Failed to process sale'' \<and>
   length (sales_table (ck_db (handleCheckout rejectedUpdates (bakery [lineA 2, lineB 1]) bakeryDb)))
     = 2 \<and>
   cart (ck_state (handleCheckout rejectedUpdates (bakery [lineA 2, lineB 1]) bakeryDb)) =
     [lineA 2, lineB 1] \<and>
   ck_toast (handleCheckout noFailures (bakery [lineA 2, lineB 1]) bakeryDb)
     = SaleCompleted 180 \<and>
   cart (ck_state (handleCheckout noFailures (bakery [lineA 2, lineB 1]) bakeryDb)) = []"
proof -
  have i: "\<not> insertFails rejectedUpdates" by (simp add: rejectedUpdates_def)
  have u: "list_ex (\<lambda>u. updateFails rejectedUpdates (fst u))
     (inventoryUpdates (bakery [lineA 2, lineB 1])
        (ingredientDeductions (bakery [lineA 2, lineB 1])))"
    by (simp add: bakery_deductions bakery_updates rejectedUpdates_def)
  have l: "length (saleRecords rejectedUpdates (bakery [lineA 2, lineB 1])) = 2"
    "sales_table bakeryDb = []" "cart (bakery [lineA 2, lineB 1]) = [lineA 2, lineB 1]"
    by (simp_all add: saleRecords_def bakery_def bakeryDb_def)
  have i': "\<not> insertFails noFailures" by (simp add: noFailures_def)
  have u': "inventoryErrors noFailures
             (inventoryUpdates (bakery [lineA 2, lineB 1])
                (ingredientDeductions (bakery [lineA 2, lineB 1]))) = []"
    by (simp add: inventoryErrors_def noFailures_def)
  have c: "ck_toast (handleCheckout noFailures (bakery [lineA 2, lineB 1]) bakeryDb)
        = SaleCompleted 180"
    unfolding handleCheckout_completed [OF bakery_validates i' u'] by (simp add: ex_defs)
  have k: "cart (clearCart (bakery [lineA 2, lineB 1])) = []" by (simp add: clearCart_def)
  from checkout_partial_failure [of "bakery [lineA 2, lineB 1]" noFailures bakeryDb] c k
  have "cart (ck_state (handleCheckout noFailures (bakery [lineA 2, lineB 1]) bakeryDb)) = []"
    by simp
  with checkout_partial_failure [of "bakery [lineA 2, lineB 1]" rejectedUpdates bakeryDb]
    bakery_validates i u l c
  show ?thesis by (simp add: list_ex_iff selectionsKept_def)
qed

subsection \<open>The cost written into a sale record\<close>






end
